theory Spec2Isabelle
  imports Complex_Main
begin

section \<open>Tensors, errors and configuration\<close>

text \<open>
  The program is a Flax model: \<^verbatim>\<open>models/layers/attentions/attention.py\<close>
  (\<^verbatim>\<open>AttentionBlock\<close>, \<^verbatim>\<open>SelfAttentionBlock\<close>) and \<^verbatim>\<open>models/vit.py\<close>
  (\<^verbatim>\<open>EncoderBlock\<close>, \<^verbatim>\<open>Encoder\<close>, \<^verbatim>\<open>ViT\<close>).

  Arrays are modelled by their shape and their elements, read by a list of indices.
  Elements are real numbers: floating-point rounding, overflow and NaN are not
  modelled. Every raise of the Python code is an \<open>Inl\<close> of the result.
\<close>

datatype assertion = RankIs3 | HeadsDivideChannels | HeadsDivideEmbedDim

text \<open>
  \<open>ArrayError\<close> stands for a rejection by the array library (a negative dimension,
  shapes that do not broadcast or concatenate); the exception class it raises is not
  modelled.
\<close>

datatype error =
    AssertionError assertion
  | AttributeError string
  | ZeroDivisionError
  | ValueError
  | IndexError
  | ArrayError

record tensor =
  shape :: "nat list"
  el :: "nat list \<Rightarrow> real"

definition ndim :: "tensor \<Rightarrow> nat" where
  "ndim t = length (shape t)"

definition valid_index :: "nat list \<Rightarrow> nat list \<Rightarrow> bool" where
  "valid_index shp ix = list_all2 (\<lambda>i n. i < n) ix shp"

text \<open>An array built by the program: outside its shape it has no elements (read as 0).\<close>

definition tensor_of :: "nat list \<Rightarrow> (nat list \<Rightarrow> real) \<Rightarrow> tensor" where
  "tensor_of shp f = \<lparr>shape = shp, el = (\<lambda>ix. if valid_index shp ix then f ix else 0)\<rparr>"

definition tensor3 :: "nat \<Rightarrow> nat \<Rightarrow> nat \<Rightarrow> (nat \<Rightarrow> nat \<Rightarrow> nat \<Rightarrow> real) \<Rightarrow> tensor" where
  "tensor3 n0 n1 n2 f = tensor_of [n0, n1, n2] (\<lambda>ix. f (ix ! 0) (ix ! 1) (ix ! 2))"

definition tensor4 ::
  "nat \<Rightarrow> nat \<Rightarrow> nat \<Rightarrow> nat \<Rightarrow> (nat \<Rightarrow> nat \<Rightarrow> nat \<Rightarrow> nat \<Rightarrow> real) \<Rightarrow> tensor" where
  "tensor4 n0 n1 n2 n3 f =
     tensor_of [n0, n1, n2, n3] (\<lambda>ix. f (ix ! 0) (ix ! 1) (ix ! 2) (ix ! 3))"

definition ebind :: "error + 'a \<Rightarrow> ('a \<Rightarrow> error + 'b) \<Rightarrow> error + 'b" where
  "ebind m f = (case m of Inl e \<Rightarrow> Inl e | Inr x \<Rightarrow> f x)"

text \<open>Python's \<^verbatim>\<open>a % b\<close> on integers: the sign of the divisor, and a raise on zero.\<close>

definition py_mod :: "int \<Rightarrow> int \<Rightarrow> error + int" where
  "py_mod a b = (if b = 0 then Inl ZeroDivisionError else Inr (a mod b))"

text \<open>
  \<^verbatim>\<open>int(a / b)\<close>: true division, then truncation toward zero (the float quotient is
  taken as exact).
\<close>

definition py_int_truediv :: "int \<Rightarrow> int \<Rightarrow> int" where
  "py_int_truediv a b = sgn a * sgn b * (\<bar>a\<bar> div \<bar>b\<bar>)"

text \<open>\<^verbatim>\<open>x or d\<close> for an \<^verbatim>\<open>Optional[int]\<close>: \<^verbatim>\<open>None\<close> and \<^verbatim>\<open>0\<close> are both falsy.\<close>

definition py_or :: "int option \<Rightarrow> int \<Rightarrow> int" where
  "py_or x d = (case x of None \<Rightarrow> d | Some v \<Rightarrow> if v = 0 then d else v)"

text \<open>No array has a negative dimension: the array library rejects one.\<close>

definition dim_of :: "int \<Rightarrow> error + nat" where
  "dim_of n = (if n < 0 then Inl ArrayError else Inr (nat n))"

text \<open>Batch dimensions of the two operands of an einsum broadcast (equal, or one of them 1).\<close>

definition broadcast_dim :: "nat \<Rightarrow> nat \<Rightarrow> error + nat" where
  "broadcast_dim a b =
     (if a = b then Inr a else if a = 1 then Inr b else if b = 1 then Inr a
      else Inl ArrayError)"

definition bcast :: "nat \<Rightarrow> nat \<Rightarrow> nat" where
  "bcast n b = (if n = 1 then 0 else b)"

datatype dtype = float16 | bfloat16 | float32 | float64

datatype precision = DEFAULT | HIGH | HIGHEST

datatype initializer = kaiming_uniform | zeros | other_initializer nat

datatype activation = gelu | other_activation nat

record AttentionBlock =
  num_heads :: int
  head_ch :: "int option"
  out_ch :: "int option"
  talking_heads :: bool
  attn_drop_rate :: real
  out_drop_rate :: real
  use_bias :: bool
  dtype :: dtype
  precision :: precision
  kernel_init :: initializer
  bias_init :: initializer

text \<open>The defaults of the class body (lines 11-21); \<^verbatim>\<open>num_heads\<close> has none.\<close>

definition AttentionBlock_new :: "int \<Rightarrow> AttentionBlock" where
  "AttentionBlock_new nh =
     \<lparr>num_heads = nh, head_ch = None, out_ch = None, talking_heads = False,
      attn_drop_rate = 0, out_drop_rate = 0, use_bias = False, dtype = float32,
      precision = DEFAULT, kernel_init = kaiming_uniform, bias_init = zeros\<rparr>"

text \<open>
  Reading a rate attribute of an \<^verbatim>\<open>AttentionBlock\<close> by name. The class declares two
  float fields, \<^verbatim>\<open>attn_drop_rate\<close> and \<^verbatim>\<open>out_drop_rate\<close>; a name the instance
  does not have raises \<^verbatim>\<open>AttributeError\<close> (Flax's \<^verbatim>\<open>Module.__getattr__\<close>).
\<close>

definition AttentionBlock_getattr :: "AttentionBlock \<Rightarrow> string \<Rightarrow> error + real" where
  "AttentionBlock_getattr self name =
     (if name = ''attn_drop_rate'' then Inr (attn_drop_rate self)
      else if name = ''out_drop_rate'' then Inr (out_drop_rate self)
      else Inl (AttributeError name))"

text \<open>
  The learned arrays of one \<^verbatim>\<open>AttentionBlock\<close>, read by index: the three projections
  (\<^verbatim>\<open>queries\<close>, \<^verbatim>\<open>keys\<close>, \<^verbatim>\<open>values\<close>: kernel \<open>(in_ch, num_heads, head_ch)\<close>, bias
  \<open>(num_heads, head_ch)\<close>), the talking-heads matrices \<open>(num_heads, num_heads)\<close> and the
  output projection (kernel \<open>(num_heads, head_ch, out_ch)\<close>, bias \<open>(out_ch)\<close>). They are
  the arrays the initialisation pass created for the same configuration and input shapes.
\<close>

record attention_params =
  queries_kernel :: "nat \<Rightarrow> nat \<Rightarrow> nat \<Rightarrow> real"
  queries_bias :: "nat \<Rightarrow> nat \<Rightarrow> real"
  keys_kernel :: "nat \<Rightarrow> nat \<Rightarrow> nat \<Rightarrow> real"
  keys_bias :: "nat \<Rightarrow> nat \<Rightarrow> real"
  values_kernel :: "nat \<Rightarrow> nat \<Rightarrow> nat \<Rightarrow> real"
  values_bias :: "nat \<Rightarrow> nat \<Rightarrow> real"
  pre_softmax :: "nat \<Rightarrow> nat \<Rightarrow> real"
  post_softmax :: "nat \<Rightarrow> nat \<Rightarrow> real"
  out_kernel :: "nat \<Rightarrow> nat \<Rightarrow> nat \<Rightarrow> real"
  out_bias :: "nat \<Rightarrow> real"

section \<open>Library layers\<close>

text \<open>
  \<^verbatim>\<open>nn.DenseGeneral(axis=-1, features=(H, D))\<close> on a rank-3 input:
  \<open>y[b,l,h,d] = (\<Sum>c. x[b,l,c] * kernel[c,h,d]) + bias[h,d]\<close>, the bias only with
  \<^verbatim>\<open>use_bias\<close>.
\<close>

definition DenseGeneral_heads ::
  "bool \<Rightarrow> nat \<Rightarrow> nat \<Rightarrow> (nat \<Rightarrow> nat \<Rightarrow> nat \<Rightarrow> real) \<Rightarrow> (nat \<Rightarrow> nat \<Rightarrow> real) \<Rightarrow> tensor \<Rightarrow> tensor" where
  "DenseGeneral_heads ub H D kern bias x =
     tensor4 (shape x ! 0) (shape x ! 1) H D
       (\<lambda>b l h d. (\<Sum>c\<leftarrow>[0..<shape x ! 2]. el x [b, l, c] * kern c h d)
                   + (if ub then bias h d else 0))"

text \<open>
  \<^verbatim>\<open>nn.DenseGeneral(features=out_ch, axis=(-2, -1))\<close> on a rank-4 input:
  \<open>y[b,q,o] = (\<Sum>h d. x[b,q,h,d] * kernel[h,d,o]) + bias[o]\<close>.
\<close>

definition DenseGeneral_out ::
  "bool \<Rightarrow> nat \<Rightarrow> (nat \<Rightarrow> nat \<Rightarrow> nat \<Rightarrow> real) \<Rightarrow> (nat \<Rightarrow> real) \<Rightarrow> tensor \<Rightarrow> tensor" where
  "DenseGeneral_out ub n_out kern bias x =
     tensor3 (shape x ! 0) (shape x ! 1) n_out
       (\<lambda>b q oc. (\<Sum>h\<leftarrow>[0..<shape x ! 2]. \<Sum>d\<leftarrow>[0..<shape x ! 3].
                      el x [b, q, h, d] * kern h d oc)
                  + (if ub then bias oc else 0))"

text \<open>
  \<^verbatim>\<open>nn.softmax\<close> over the last axis of a rank-4 array:
  \<^verbatim>\<open>e = exp(x - max(x)); e / sum(e)\<close>, maximum and sum along that axis. On an empty
  last axis the result is the empty array of the same shape: it has no elements, and
  the maximum is never read.
\<close>

definition row_max :: "tensor \<Rightarrow> nat \<Rightarrow> nat \<Rightarrow> nat \<Rightarrow> real" where
  "row_max x b h q = foldr max (map (\<lambda>k. el x [b, h, q, k]) [1..<shape x ! 3]) (el x [b, h, q, 0])"

definition softmax :: "tensor \<Rightarrow> tensor" where
  "softmax x =
     tensor4 (shape x ! 0) (shape x ! 1) (shape x ! 2) (shape x ! 3)
       (\<lambda>b h q k. exp (el x [b, h, q, k] - row_max x b h q)
                   / (\<Sum>j\<leftarrow>[0..<shape x ! 3]. exp (el x [b, h, q, j] - row_max x b h q)))"

text \<open>
  \<^verbatim>\<open>nn.Dropout(rate)(x, deterministic)\<close>: the input itself when the rate is 0 or the call
  is deterministic; otherwise the kept elements divided by \<open>1 - rate\<close> and the others 0.
  The mask is the caller's randomness.
\<close>

definition Dropout :: "real \<Rightarrow> (nat list \<Rightarrow> bool) \<Rightarrow> tensor \<Rightarrow> bool \<Rightarrow> tensor" where
  "Dropout rate keep x deterministic =
     (if rate = 0 \<or> deterministic then x
      else tensor_of (shape x) (\<lambda>ix. if keep ix then el x ix / (1 - rate) else 0))"

section \<open>AttentionBlock\<close>

text \<open>
  Lines 25-30 of \<^verbatim>\<open>AttentionBlock.__call__\<close>: the two assertions and the defaults.
  The result is \<open>(in_ch, head_ch, out_ch)\<close>.
\<close>

definition AttentionBlock_channels ::
  "AttentionBlock \<Rightarrow> tensor \<Rightarrow> tensor \<Rightarrow> error + (int \<times> int \<times> int)" where
  "AttentionBlock_channels self inputs_q inputs_kv =
     (if \<not> (ndim inputs_q = 3 \<and> ndim inputs_kv = 3) then Inl (AssertionError RankIs3)
      else
        let in_ch = int (last (shape inputs_q)) in
        ebind (py_mod in_ch (num_heads self)) (\<lambda>r.
          if r \<noteq> 0 then Inl (AssertionError HeadsDivideChannels)
          else Inr (in_ch,
                    py_or (head_ch self) (py_int_truediv in_ch (num_heads self)),
                    py_or (out_ch self) in_ch)))"

text \<open>
  Lines 32-57: the projections, the scaling of the query, the scores
  \<open>score[b,h,q,k] = (\<Sum>d. query[b,q,h,d] * key[b,k,h,d])\<close> and, when
  \<^verbatim>\<open>talking_heads\<close>, their mixing across heads
  \<open>score'[b,i,q,k] = (\<Sum>h. score[b,h,q,k] * pre_softmax[h,i])\<close>. The result is the
  scores with the value projection.
\<close>

definition mix_heads :: "(nat \<Rightarrow> nat \<Rightarrow> real) \<Rightarrow> tensor \<Rightarrow> tensor" where
  "mix_heads m w =
     tensor4 (shape w ! 0) (shape w ! 1) (shape w ! 2) (shape w ! 3)
       (\<lambda>b i q k. \<Sum>h\<leftarrow>[0..<shape w ! 1]. el w [b, h, q, k] * m h i)"

definition AttentionBlock_scores ::
  "AttentionBlock \<Rightarrow> attention_params \<Rightarrow> tensor \<Rightarrow> tensor \<Rightarrow> error + (tensor \<times> tensor)" where
  "AttentionBlock_scores self p inputs_q inputs_kv =
     ebind (AttentionBlock_channels self inputs_q inputs_kv) (\<lambda>(in_ch, head_ch, out_ch).
     ebind (dim_of (num_heads self)) (\<lambda>H.
     ebind (dim_of head_ch) (\<lambda>D.
       let query = DenseGeneral_heads (use_bias self) H D (queries_kernel p) (queries_bias p) inputs_q;
           key = DenseGeneral_heads (use_bias self) H D (keys_kernel p) (keys_bias p) inputs_kv;
           value = DenseGeneral_heads (use_bias self) H D (values_kernel p) (values_bias p) inputs_kv;
           query = tensor4 (shape query ! 0) (shape query ! 1) H D
                     (\<lambda>b q h d. el query [b, q, h, d] / sqrt (real_of_int head_ch))
       in
       ebind (broadcast_dim (shape query ! 0) (shape key ! 0)) (\<lambda>B.
         let attn_weights = tensor4 B H (shape query ! 1) (shape key ! 1)
               (\<lambda>b h q k. \<Sum>d\<leftarrow>[0..<D].
                    el query [bcast (shape query ! 0) b, q, h, d]
                  * el key [bcast (shape key ! 0) b, k, h, d])
         in Inr (if talking_heads self then mix_heads (pre_softmax p) attn_weights
                 else attn_weights, value)))))"

text \<open>Line 59: the attention weights right after the softmax over the last (key) axis.\<close>

definition AttentionBlock_softmax ::
  "AttentionBlock \<Rightarrow> attention_params \<Rightarrow> tensor \<Rightarrow> tensor \<Rightarrow> error + (tensor \<times> tensor)" where
  "AttentionBlock_softmax self p inputs_q inputs_kv =
     ebind (AttentionBlock_scores self p inputs_q inputs_kv) (\<lambda>(attn_weights, value).
       Inr (softmax attn_weights, value))"

text \<open>Lines 61-68: the post-softmax mixing across heads when \<^verbatim>\<open>talking_heads\<close>.\<close>

definition AttentionBlock_weights ::
  "AttentionBlock \<Rightarrow> attention_params \<Rightarrow> tensor \<Rightarrow> tensor \<Rightarrow> error + (tensor \<times> tensor)" where
  "AttentionBlock_weights self p inputs_q inputs_kv =
     ebind (AttentionBlock_softmax self p inputs_q inputs_kv) (\<lambda>(attn_weights, value).
       Inr (if talking_heads self then mix_heads (post_softmax p) attn_weights
            else attn_weights, value))"

text \<open>
  Lines 70-89. Line 70 reads \<^verbatim>\<open>self.attn_dropout_rate\<close>. Then the dropout of the
  weights, \<open>context[b,q,h,d] = (\<Sum>k. weights[b,h,q,k] * value[b,k,h,d])\<close>, the output
  projection over heads and channels, and the dropout of the output. The two masks are
  the randomness of the two dropout sites.
\<close>

definition AttentionBlock_call ::
  "AttentionBlock \<Rightarrow> attention_params \<Rightarrow> (nat list \<Rightarrow> bool) \<times> (nat list \<Rightarrow> bool)
     \<Rightarrow> tensor \<Rightarrow> tensor \<Rightarrow> bool \<Rightarrow> error + tensor" where
  "AttentionBlock_call self p masks inputs_q inputs_kv is_training =
     ebind (AttentionBlock_channels self inputs_q inputs_kv) (\<lambda>(in_ch, head_ch, out_ch).
     ebind (AttentionBlock_weights self p inputs_q inputs_kv) (\<lambda>(attn_weights, value).
     ebind (AttentionBlock_getattr self ''attn_dropout_rate'') (\<lambda>rate.
       let attn_weights = Dropout rate (fst masks) attn_weights (\<not> is_training);
           attn_scores = tensor4 (shape attn_weights ! 0) (shape attn_weights ! 2)
               (shape value ! 2) (shape value ! 3)
               (\<lambda>b q h d. \<Sum>k\<leftarrow>[0..<shape value ! 1].
                    el attn_weights [b, h, q, k] * el value [bcast (shape value ! 0) b, k, h, d])
       in
       ebind (dim_of out_ch) (\<lambda>n_out.
         let output = DenseGeneral_out (use_bias self) n_out (out_kernel p) (out_bias p) attn_scores
         in Inr (Dropout (out_drop_rate self) (snd masks) output (\<not> is_training))))))"

section \<open>SelfAttentionBlock\<close>

record SelfAttentionBlock =
  num_heads :: int
  head_ch :: "int option"
  out_ch :: "int option"
  talking_heads :: bool
  attn_drop_rate :: real
  out_drop_rate :: real
  use_bias :: bool
  dtype :: dtype
  precision :: precision
  kernel_init :: initializer
  bias_init :: initializer

definition SelfAttentionBlock_new :: "int \<Rightarrow> SelfAttentionBlock" where
  "SelfAttentionBlock_new nh =
     \<lparr>SelfAttentionBlock.num_heads = nh, SelfAttentionBlock.head_ch = None,
      SelfAttentionBlock.out_ch = None, SelfAttentionBlock.talking_heads = False,
      SelfAttentionBlock.attn_drop_rate = 0, SelfAttentionBlock.out_drop_rate = 0,
      SelfAttentionBlock.use_bias = False, SelfAttentionBlock.dtype = float32,
      SelfAttentionBlock.precision = DEFAULT,
      SelfAttentionBlock.kernel_init = kaiming_uniform,
      SelfAttentionBlock.bias_init = zeros\<rparr>"

text \<open>The \<^verbatim>\<open>AttentionBlock\<close> that \<^verbatim>\<open>SelfAttentionBlock.__call__\<close> constructs (lines 107-117).\<close>

definition SelfAttentionBlock_attention :: "SelfAttentionBlock \<Rightarrow> AttentionBlock" where
  "SelfAttentionBlock_attention self =
     \<lparr>AttentionBlock.num_heads = SelfAttentionBlock.num_heads self,
      AttentionBlock.head_ch = SelfAttentionBlock.head_ch self,
      AttentionBlock.out_ch = SelfAttentionBlock.out_ch self,
      AttentionBlock.talking_heads = SelfAttentionBlock.talking_heads self,
      AttentionBlock.attn_drop_rate = SelfAttentionBlock.attn_drop_rate self,
      AttentionBlock.out_drop_rate = SelfAttentionBlock.out_drop_rate self,
      AttentionBlock.use_bias = SelfAttentionBlock.use_bias self,
      AttentionBlock.dtype = SelfAttentionBlock.dtype self,
      AttentionBlock.precision = SelfAttentionBlock.precision self,
      AttentionBlock.kernel_init = SelfAttentionBlock.kernel_init self,
      AttentionBlock.bias_init = SelfAttentionBlock.bias_init self\<rparr>"

definition SelfAttentionBlock_call ::
  "SelfAttentionBlock \<Rightarrow> attention_params \<Rightarrow> (nat list \<Rightarrow> bool) \<times> (nat list \<Rightarrow> bool)
     \<Rightarrow> tensor \<Rightarrow> bool \<Rightarrow> error + tensor" where
  "SelfAttentionBlock_call self p masks inputs is_training =
     AttentionBlock_call (SelfAttentionBlock_attention self) p masks inputs inputs is_training"

section \<open>EncoderBlock\<close>

text \<open>
  \<^verbatim>\<open>FFBlock\<close>, \<^verbatim>\<open>AddAbsPosEmbed\<close> and \<^verbatim>\<open>PatchEmbedBlock\<close> are imported from
  \<^verbatim>\<open>models.layers\<close> and \<^verbatim>\<open>nn.LayerNorm\<close> from Flax; their forward functions are
  parameters of the model. The records hold the arguments the call sites pass.
\<close>

record FFBlock =
  expand_ratio :: real
  dropout_rate :: real
  activation_fn :: activation
  dtype :: dtype
  precision :: precision
  kernel_init :: initializer
  bias_init :: initializer

record EncoderBlock =
  num_heads :: int
  expand_ratio :: real
  attn_dropout_rate :: real
  dropout_rate :: real
  activation_fn :: activation
  dtype :: dtype
  precision :: precision
  kernel_init :: initializer
  bias_init :: initializer

definition EncoderBlock_new :: "int \<Rightarrow> EncoderBlock" where
  "EncoderBlock_new nh =
     \<lparr>EncoderBlock.num_heads = nh, EncoderBlock.expand_ratio = 4,
      EncoderBlock.attn_dropout_rate = 0, EncoderBlock.dropout_rate = 0,
      EncoderBlock.activation_fn = gelu, EncoderBlock.dtype = float32,
      EncoderBlock.precision = DEFAULT, EncoderBlock.kernel_init = kaiming_uniform,
      EncoderBlock.bias_init = zeros\<rparr>"

text \<open>
  The submodules of one \<^verbatim>\<open>EncoderBlock\<close> under their Flax names, each with its own
  learned arrays, and the dropout masks of the attention sublayer.
\<close>

record block_vars =
  LayerNorm_0 :: "dtype \<Rightarrow> tensor \<Rightarrow> error + tensor"
  SelfAttentionBlock_0 :: attention_params
  attention_masks :: "(nat list \<Rightarrow> bool) \<times> (nat list \<Rightarrow> bool)"
  LayerNorm_1 :: "dtype \<Rightarrow> tensor \<Rightarrow> error + tensor"
  FFBlock_0 :: "FFBlock \<Rightarrow> tensor \<Rightarrow> bool \<Rightarrow> error + tensor"

text \<open>The \<^verbatim>\<open>SelfAttentionBlock\<close> of lines 26-31: six keyword arguments, the rest defaults.\<close>

definition EncoderBlock_attention :: "EncoderBlock \<Rightarrow> SelfAttentionBlock" where
  "EncoderBlock_attention self =
     (SelfAttentionBlock_new (EncoderBlock.num_heads self))
       \<lparr>SelfAttentionBlock.attn_drop_rate := EncoderBlock.attn_dropout_rate self,
        SelfAttentionBlock.out_drop_rate := EncoderBlock.dropout_rate self,
        SelfAttentionBlock.dtype := EncoderBlock.dtype self,
        SelfAttentionBlock.precision := EncoderBlock.precision self,
        SelfAttentionBlock.kernel_init := EncoderBlock.kernel_init self\<rparr>"

text \<open>The \<^verbatim>\<open>FFBlock\<close> of lines 36-42.\<close>

definition EncoderBlock_ff :: "EncoderBlock \<Rightarrow> FFBlock" where
  "EncoderBlock_ff self =
     \<lparr>FFBlock.expand_ratio = EncoderBlock.expand_ratio self,
      FFBlock.dropout_rate = EncoderBlock.dropout_rate self,
      FFBlock.activation_fn = EncoderBlock.activation_fn self,
      FFBlock.dtype = EncoderBlock.dtype self,
      FFBlock.precision = EncoderBlock.precision self,
      FFBlock.kernel_init = EncoderBlock.kernel_init self,
      FFBlock.bias_init = EncoderBlock.bias_init self\<rparr>"

text \<open>
  \<^verbatim>\<open>x + y\<close> on arrays broadcasts the shapes from the last axis backwards; two
  dimensions that differ and are both not 1 are rejected.
\<close>

fun broadcast_shapes :: "nat list \<Rightarrow> nat list \<Rightarrow> error + nat list" where
  "broadcast_shapes [] ys = Inr ys"
| "broadcast_shapes (x # xs) [] = Inr (x # xs)"
| "broadcast_shapes (x # xs) (y # ys) =
     ebind (broadcast_dim x y) (\<lambda>d. ebind (broadcast_shapes xs ys) (\<lambda>ds. Inr (d # ds)))"

definition bindex :: "nat list \<Rightarrow> nat list \<Rightarrow> nat list" where
  "bindex shp ix = map2 bcast shp (drop (length ix - length shp) ix)"

definition tensor_add :: "tensor \<Rightarrow> tensor \<Rightarrow> error + tensor" where
  "tensor_add x y =
     ebind (broadcast_shapes (rev (shape x)) (rev (shape y))) (\<lambda>r.
       Inr (tensor_of (rev r) (\<lambda>ix. el x (bindex (shape x) ix) + el y (bindex (shape y) ix))))"

definition EncoderBlock_call ::
  "EncoderBlock \<Rightarrow> block_vars \<Rightarrow> tensor \<Rightarrow> bool \<Rightarrow> error + tensor" where
  "EncoderBlock_call self vars inputs is_training =
     ebind (block_vars.LayerNorm_0 vars (EncoderBlock.dtype self) inputs) (\<lambda>x.
     ebind (SelfAttentionBlock_call (EncoderBlock_attention self) (SelfAttentionBlock_0 vars)
              (attention_masks vars) x is_training) (\<lambda>x.
     ebind (tensor_add x inputs) (\<lambda>x.
     ebind (LayerNorm_1 vars (EncoderBlock.dtype self) x) (\<lambda>y.
     ebind (FFBlock_0 vars (EncoderBlock_ff self) y is_training) (\<lambda>y.
       tensor_add x y)))))"

section \<open>Encoder\<close>

record Encoder =
  num_layers :: int
  num_heads :: int
  expand_ratio :: real
  attn_dropout_rate :: real
  dropout_rate :: real
  activation_fn :: activation
  dtype :: dtype
  precision :: precision
  kernel_init :: initializer
  bias_init :: initializer

record encoder_vars =
  AddAbsPosEmbed_0 :: "tensor \<Rightarrow> error + tensor"
  Dropout_0 :: "nat list \<Rightarrow> bool"
  EncoderBlock_n :: "nat \<Rightarrow> block_vars"
  LayerNorm_0 :: "dtype \<Rightarrow> tensor \<Rightarrow> error + tensor"

text \<open>The \<^verbatim>\<open>EncoderBlock\<close> of lines 65-72: eight keyword arguments, \<^verbatim>\<open>bias_init\<close> not among them.\<close>

definition Encoder_block :: "Encoder \<Rightarrow> EncoderBlock" where
  "Encoder_block self =
     (EncoderBlock_new (Encoder.num_heads self))
       \<lparr>EncoderBlock.expand_ratio := Encoder.expand_ratio self,
        EncoderBlock.attn_dropout_rate := Encoder.attn_dropout_rate self,
        EncoderBlock.dropout_rate := Encoder.dropout_rate self,
        EncoderBlock.activation_fn := Encoder.activation_fn self,
        EncoderBlock.dtype := Encoder.dtype self,
        EncoderBlock.precision := Encoder.precision self,
        EncoderBlock.kernel_init := Encoder.kernel_init self\<rparr>"

text \<open>
  The loop of lines 64-73: \<open>n\<close> blocks remain, the next one is the \<open>i\<close>-th
  (\<^verbatim>\<open>EncoderBlock_i\<close>).
\<close>

fun Encoder_blocks ::
  "EncoderBlock \<Rightarrow> (nat \<Rightarrow> block_vars) \<Rightarrow> bool \<Rightarrow> nat \<Rightarrow> nat \<Rightarrow> tensor \<Rightarrow> error + tensor" where
  "Encoder_blocks blk vars is_training i 0 x = Inr x"
| "Encoder_blocks blk vars is_training i (Suc n) x =
     ebind (EncoderBlock_call blk (vars i) x is_training) (\<lambda>x.
       Encoder_blocks blk vars is_training (Suc i) n x)"

definition Encoder_call ::
  "Encoder \<Rightarrow> encoder_vars \<Rightarrow> tensor \<Rightarrow> bool \<Rightarrow> error + tensor" where
  "Encoder_call self vars inputs is_training =
     ebind (AddAbsPosEmbed_0 vars inputs) (\<lambda>x.
       let x = Dropout (Encoder.dropout_rate self) (Dropout_0 vars) x (\<not> is_training) in
       ebind (Encoder_blocks (Encoder_block self) (EncoderBlock_n vars) is_training 0
                (nat (Encoder.num_layers self)) x) (\<lambda>x.
         encoder_vars.LayerNorm_0 vars (Encoder.dtype self) x))"

section \<open>ViT\<close>

record PatchEmbedBlock =
  patch_shape :: "int \<times> int"
  embed_dim :: int
  dtype :: dtype
  precision :: precision
  kernel_init :: initializer

record Dense =
  features :: int
  use_bias :: bool
  dtype :: dtype
  kernel_init :: initializer
  bias_init :: initializer

record ViT =
  num_classes :: int
  num_layers :: int
  num_heads :: int
  embed_dim :: int
  patch_shape :: "int \<times> int"
  expand_ratio :: real
  dropout_rate :: real
  attn_dropout_rate :: real
  activation_fn :: activation
  dtype :: dtype
  precision :: precision
  kernel_init :: initializer
  bias_init :: initializer

text \<open>The defaults of the class body (lines 85-92); the first five fields have none.\<close>

definition ViT_new :: "int \<Rightarrow> int \<Rightarrow> int \<Rightarrow> int \<Rightarrow> int \<times> int \<Rightarrow> ViT" where
  "ViT_new nc nl nh ed ps =
     \<lparr>ViT.num_classes = nc, ViT.num_layers = nl, ViT.num_heads = nh, ViT.embed_dim = ed,
      ViT.patch_shape = ps, ViT.expand_ratio = 4, ViT.dropout_rate = 0,
      ViT.attn_dropout_rate = 0, ViT.activation_fn = gelu, ViT.dtype = float32,
      ViT.precision = DEFAULT, ViT.kernel_init = kaiming_uniform, ViT.bias_init = zeros\<rparr>"

text \<open>
  The submodules and learned arrays of a \<^verbatim>\<open>ViT\<close>: the \<^verbatim>\<open>cls\<close> array of shape
  \<open>(1, 1, embed_dim)\<close> read by its channel, and the head's kernel
  \<open>(embed_dim, num_classes)\<close> and bias \<open>(num_classes)\<close>.
\<close>

record vit_vars =
  PatchEmbedBlock_0 :: "PatchEmbedBlock \<Rightarrow> tensor \<Rightarrow> error + tensor"
  cls :: "nat \<Rightarrow> real"
  Encoder_0 :: encoder_vars
  Dense_0_kernel :: "nat \<Rightarrow> nat \<Rightarrow> real"
  Dense_0_bias :: "nat \<Rightarrow> real"

definition ViT_patch_embed :: "ViT \<Rightarrow> PatchEmbedBlock" where
  "ViT_patch_embed self =
     \<lparr>PatchEmbedBlock.patch_shape = ViT.patch_shape self,
      PatchEmbedBlock.embed_dim = ViT.embed_dim self,
      PatchEmbedBlock.dtype = ViT.dtype self,
      PatchEmbedBlock.precision = ViT.precision self,
      PatchEmbedBlock.kernel_init = ViT.kernel_init self\<rparr>"

definition ViT_encoder :: "ViT \<Rightarrow> Encoder" where
  "ViT_encoder self =
     \<lparr>Encoder.num_layers = ViT.num_layers self,
      Encoder.num_heads = ViT.num_heads self,
      Encoder.expand_ratio = ViT.expand_ratio self,
      Encoder.attn_dropout_rate = ViT.attn_dropout_rate self,
      Encoder.dropout_rate = ViT.dropout_rate self,
      Encoder.activation_fn = ViT.activation_fn self,
      Encoder.dtype = ViT.dtype self,
      Encoder.precision = ViT.precision self,
      Encoder.kernel_init = ViT.kernel_init self,
      Encoder.bias_init = ViT.bias_init self\<rparr>"

text \<open>The head of lines 124-129.\<close>

definition ViT_head :: "ViT \<Rightarrow> Dense" where
  "ViT_head self =
     \<lparr>Dense.features = ViT.num_classes self, Dense.use_bias = True,
      Dense.dtype = ViT.dtype self, Dense.kernel_init = zeros,
      Dense.bias_init = ViT.bias_init self\<rparr>"

text \<open>\<^verbatim>\<open>jnp.tile(t, reps)\<close> with one repetition count per axis.\<close>

definition tile :: "tensor \<Rightarrow> nat list \<Rightarrow> tensor" where
  "tile t reps =
     tensor_of (map2 (\<lambda>r n. r * n) reps (shape t))
       (\<lambda>ix. el t (map2 (\<lambda>i n. i mod n) ix (shape t)))"

text \<open>
  \<^verbatim>\<open>jnp.concatenate([a, x], axis=1)\<close>: the arrays agree in rank and in every dimension
  but the second.
\<close>

definition concatenate_axis1 :: "tensor \<Rightarrow> tensor \<Rightarrow> error + tensor" where
  "concatenate_axis1 a x =
     (if 2 \<le> ndim a \<and> ndim a = ndim x \<and> (shape a)[1 := 0] = (shape x)[1 := 0]
      then Inr (tensor_of ((shape a)[1 := shape a ! 1 + shape x ! 1])
        (\<lambda>ix. if ix ! 1 < shape a ! 1 then el a ix
               else el x (ix[1 := ix ! 1 - shape a ! 1])))
      else Inl ArrayError)"

text \<open>\<^verbatim>\<open>x[:, 0]\<close>: the first entry along the second axis, which is dropped.\<close>

definition index_axis1_0 :: "tensor \<Rightarrow> error + tensor" where
  "index_axis1_0 x =
     (if ndim x < 2 \<or> shape x ! 1 = 0 then Inl IndexError
      else Inr (tensor_of (shape x ! 0 # drop 2 (shape x))
        (\<lambda>ix. el x (hd ix # 0 # tl ix))))"

text \<open>
  \<^verbatim>\<open>nn.Dense(features, use_bias)\<close> over the last axis:
  \<open>y[..., n] = (\<Sum>c. x[..., c] * kernel[c, n]) + bias[n]\<close>.
\<close>

definition Dense_call ::
  "Dense \<Rightarrow> (nat \<Rightarrow> nat \<Rightarrow> real) \<Rightarrow> (nat \<Rightarrow> real) \<Rightarrow> tensor \<Rightarrow> error + tensor" where
  "Dense_call self kern bias x =
     (if ndim x = 0 then Inl ArrayError
      else ebind (dim_of (Dense.features self)) (\<lambda>n.
        Inr (tensor_of (butlast (shape x) @ [n])
          (\<lambda>ix. (\<Sum>c\<leftarrow>[0..<last (shape x)]. el x (butlast ix @ [c]) * kern c (last ix))
                 + (if Dense.use_bias self then bias (last ix) else 0)))))"

text \<open>
  Lines 96-110 of \<^verbatim>\<open>ViT.__call__\<close>: the assertion, the patch embedding, and the class
  token tiled over the batch and concatenated in front of the patch tokens. The result
  is the sequence given to the \<^verbatim>\<open>Encoder\<close>.
\<close>

definition ViT_tokens :: "ViT \<Rightarrow> vit_vars \<Rightarrow> tensor \<Rightarrow> error + tensor" where
  "ViT_tokens self vars inputs =
     ebind (py_mod (ViT.embed_dim self) (ViT.num_heads self)) (\<lambda>r.
       if r \<noteq> 0 then Inl (AssertionError HeadsDivideEmbedDim)
       else
         ebind (PatchEmbedBlock_0 vars (ViT_patch_embed self) inputs) (\<lambda>x.
           if ndim x \<noteq> 3 then Inl ValueError
           else
             let b = shape x ! 0; l = shape x ! 1 in
             ebind (dim_of (ViT.embed_dim self)) (\<lambda>e.
               let cls_token = tensor3 1 1 e (\<lambda>i j c. cls vars c);
                   cls_token = tile cls_token [b, 1, 1]
               in concatenate_axis1 cls_token x)))"

text \<open>Lines 112-131: the \<^verbatim>\<open>Encoder\<close>, row 0 of its output, and the head.\<close>

definition ViT_call :: "ViT \<Rightarrow> vit_vars \<Rightarrow> tensor \<Rightarrow> bool \<Rightarrow> error + tensor" where
  "ViT_call self vars inputs is_training =
     ebind (ViT_tokens self vars inputs) (\<lambda>x.
     ebind (Encoder_call (ViT_encoder self) (Encoder_0 vars) x is_training) (\<lambda>x.
     ebind (index_axis1_0 x) (\<lambda>cls_token.
       Dense_call (ViT_head self) (Dense_0_kernel vars) (Dense_0_bias vars) cls_token)))"

section \<open>Sample inputs\<close>

definition sample_params :: attention_params where
  "sample_params =
     \<lparr>queries_kernel = (\<lambda>c h d. 1), queries_bias = (\<lambda>h d. 0),
      keys_kernel = (\<lambda>c h d. 1), keys_bias = (\<lambda>h d. 0),
      values_kernel = (\<lambda>c h d. 1), values_bias = (\<lambda>h d. 0),
      pre_softmax = (\<lambda>h i. if h = i then 1 else 0),
      post_softmax = (\<lambda>h i. if h = i then 1 else 0),
      out_kernel = (\<lambda>h d oc. 1), out_bias = (\<lambda>oc. 0)\<rparr>"

definition sample_masks :: "(nat list \<Rightarrow> bool) \<times> (nat list \<Rightarrow> bool)" where
  "sample_masks = ((\<lambda>ix. True), (\<lambda>ix. True))"

definition sample_tensor :: "nat \<Rightarrow> nat \<Rightarrow> nat \<Rightarrow> tensor" where
  "sample_tensor b l c = tensor3 b l c (\<lambda>i j k. real (i + j + k))"


text \<open>Stand-ins for the collaborators: each returns its input.\<close>

definition sample_block_vars :: block_vars where
  "sample_block_vars =
     \<lparr>block_vars.LayerNorm_0 = (\<lambda>dt x. Inr x),
      SelfAttentionBlock_0 = sample_params,
      attention_masks = sample_masks,
      LayerNorm_1 = (\<lambda>dt x. Inr x),
      FFBlock_0 = (\<lambda>cfg x tr. Inr x)\<rparr>"

definition sample_encoder_vars :: encoder_vars where
  "sample_encoder_vars =
     \<lparr>AddAbsPosEmbed_0 = (\<lambda>x. Inr x),
      Dropout_0 = (\<lambda>ix. True),
      EncoderBlock_n = (\<lambda>i. sample_block_vars),
      encoder_vars.LayerNorm_0 = (\<lambda>dt x. Inr x)\<rparr>"

text \<open>
  A stand-in patch embedding giving 4 patches per image with entries \<open>b + l + c\<close>, a
  \<^verbatim>\<open>cls\<close> array with entries \<open>- c - 1\<close>, and a head at all zeros.
\<close>

definition sample_vit_vars :: vit_vars where
  "sample_vit_vars =
     \<lparr>PatchEmbedBlock_0 = (\<lambda>cfg img. Inr (tensor3 (shape img ! 0) 4
          (nat (PatchEmbedBlock.embed_dim cfg)) (\<lambda>b l c. real (b + l + c)))),
      cls = (\<lambda>c. - real c - 1),
      Encoder_0 = sample_encoder_vars,
      Dense_0_kernel = (\<lambda>c n. 0),
      Dense_0_bias = (\<lambda>n. 0)\<rparr>"

definition sample_image :: tensor where
  "sample_image = tensor_of [4, 32, 32, 3] (\<lambda>ix. 1)"

section \<open>Basic facts\<close>

lemma shape_tensor_of [simp]: "shape (tensor_of shp f) = shp"
  by (simp add: tensor_of_def)

lemma el_tensor_of: "el (tensor_of shp f) ix = (if valid_index shp ix then f ix else 0)"
  by (simp add: tensor_of_def)

lemma shape_tensor4 [simp]: "shape (tensor4 n0 n1 n2 n3 f) = [n0, n1, n2, n3]"
  by (simp add: tensor4_def)

lemma shape_tensor3 [simp]: "shape (tensor3 n0 n1 n2 f) = [n0, n1, n2]"
  by (simp add: tensor3_def)

lemma el_tensor4:
  "el (tensor4 n0 n1 n2 n3 f) [a, b, c, d] =
     (if a < n0 \<and> b < n1 \<and> c < n2 \<and> d < n3 then f a b c d else 0)"
  by (simp add: tensor4_def el_tensor_of valid_index_def)

lemma el_tensor3:
  "el (tensor3 n0 n1 n2 f) [a, b, c] = (if a < n0 \<and> b < n1 \<and> c < n2 then f a b c else 0)"
  by (simp add: tensor3_def el_tensor_of valid_index_def)



lemma sum_list_upt_sum: "(\<Sum>k\<leftarrow>[0..<n]. f k) = sum f {..<n}"
  by (simp add: interv_sum_list_conv_sum_set_nat atLeast0LessThan)

lemma softmax_row_sum:
  assumes "0 < shape x ! 3" "b < shape x ! 0" "h < shape x ! 1" "q < shape x ! 2"
  shows "(\<Sum>k\<leftarrow>[0..<shape x ! 3]. el (softmax x) [b, h, q, k]) = 1"
proof -
  let ?K = "shape x ! 3"
  let ?e = "\<lambda>k. exp (el x [b, h, q, k] - row_max x b h q)"
  have pos: "0 < sum ?e {..<?K}"
    using assms(1) by (intro sum_pos) auto
  have "(\<Sum>k\<leftarrow>[0..<?K]. el (softmax x) [b, h, q, k]) = (\<Sum>k<?K. el (softmax x) [b, h, q, k])"
    by (rule sum_list_upt_sum)
  also have "\<dots> = (\<Sum>k<?K. ?e k / sum ?e {..<?K})"
    using assms(2-4) by (intro sum.cong) (auto simp: softmax_def el_tensor4 sum_list_upt_sum)
  also have "\<dots> = sum ?e {..<?K} / sum ?e {..<?K}"
    by (rule sum_divide_distrib [symmetric])
  also have "\<dots> = 1" using pos by simp
  finally show ?thesis .
qed

text \<open>Over an empty last axis there is nothing to sum.\<close>

lemma softmax_empty_row_sum:
  assumes "shape x ! 3 = 0"
  shows "(\<Sum>k\<leftarrow>[0..<shape x ! 3]. el (softmax x) [b, h, q, k]) = 0"
  using assms by simp

lemma ebind_Inl [simp]: "ebind (Inl e) f = Inl e"
  by (simp add: ebind_def)

lemma ebind_Inr [simp]: "ebind (Inr x) f = f x"
  by (simp add: ebind_def)

lemma ebind_eq_Inr: "ebind m f = Inr y \<longleftrightarrow> (\<exists>x. m = Inr x \<and> f x = Inr y)"
  by (cases m) simp_all

lemma getattr_attn_dropout_rate:
  "AttentionBlock_getattr self ''attn_dropout_rate'' = Inl (AttributeError ''attn_dropout_rate'')"
  by (simp add: AttentionBlock_getattr_def)

lemma AttentionBlock_call_cases:
  "AttentionBlock_call self p masks q kv tr =
     (case AttentionBlock_channels self q kv of Inl e \<Rightarrow> Inl e
      | Inr c \<Rightarrow> (case AttentionBlock_weights self p q kv of Inl e \<Rightarrow> Inl e
                  | Inr w \<Rightarrow> Inl (AttributeError ''attn_dropout_rate'')))"
  by (auto simp: AttentionBlock_call_def getattr_attn_dropout_rate split: sum.splits prod.splits)

lemma AttentionBlock_call_not_Inr: "AttentionBlock_call self p masks q kv tr \<noteq> Inr y"
  by (simp add: AttentionBlock_call_cases split: sum.splits)

lemma py_or_zero: "py_or (Some 0) d = py_or None d"
  by (simp add: py_or_def)

lemma shape_sample_tensor [simp]: "shape (sample_tensor b l c) = [b, l, c]"
  by (simp add: sample_tensor_def)

lemma shape_DenseGeneral_heads [simp]:
  "shape (DenseGeneral_heads ub H D kern bias x) = [shape x ! 0, shape x ! 1, H, D]"
  by (simp add: DenseGeneral_heads_def)

lemma shape_mix_heads [simp]:
  "shape (mix_heads m w) = [shape w ! 0, shape w ! 1, shape w ! 2, shape w ! 3]"
  by (simp add: mix_heads_def)

lemma shape_softmax [simp]:
  "shape (softmax x) = [shape x ! 0, shape x ! 1, shape x ! 2, shape x ! 3]"
  by (simp add: softmax_def)

lemma AttentionBlock_scores_shape:
  assumes "AttentionBlock_scores self p q kv = Inr (s, v)"
  shows "\<exists>B. broadcast_dim (shape q ! 0) (shape kv ! 0) = Inr B
           \<and> shape s = [B, nat (AttentionBlock.num_heads self), shape q ! 1, shape kv ! 1]"
  using assms
  by (auto simp: AttentionBlock_scores_def ebind_eq_Inr Let_def dim_of_def
      split: prod.splits if_splits)

lemma AttentionBlock_softmax_Inr:
  assumes "AttentionBlock_softmax self p q kv = Inr (w, v)"
  shows "\<exists>B s. broadcast_dim (shape q ! 0) (shape kv ! 0) = Inr B
           \<and> shape s = [B, nat (AttentionBlock.num_heads self), shape q ! 1, shape kv ! 1]
           \<and> w = softmax s"
proof -
  from assms obtain s where s: "AttentionBlock_scores self p q kv = Inr (s, v)"
    and w: "w = softmax s"
    by (auto simp: AttentionBlock_softmax_def ebind_eq_Inr)
  from AttentionBlock_scores_shape [OF s] w show ?thesis by blast
qed

lemma dim_of_Inl: "dim_of n = Inl e \<Longrightarrow> e = ArrayError"
  by (simp add: dim_of_def split: if_splits)

lemma broadcast_dim_Inl: "broadcast_dim a b = Inl e \<Longrightarrow> e = ArrayError"
  by (simp add: broadcast_dim_def split: if_splits)

lemma AttentionBlock_softmax_Inl:
  assumes "AttentionBlock_channels self q kv = Inr c"
    and "AttentionBlock_softmax self p q kv = Inl e"
  shows "e = ArrayError"
  using assms
  by (auto simp: AttentionBlock_softmax_def AttentionBlock_scores_def ebind_def Let_def
      dest: dim_of_Inl broadcast_dim_Inl split: sum.splits prod.splits)

lemma AttentionBlock_weights_Inl:
  assumes "AttentionBlock_channels self q kv = Inr c"
    and "AttentionBlock_weights self p q kv = Inl e"
  shows "e = ArrayError"
  using assms AttentionBlock_softmax_Inl [of self q kv c p e]
  by (auto simp: AttentionBlock_weights_def ebind_def split: sum.splits prod.splits)

lemma AttentionBlock_call_divisible:
  assumes "AttentionBlock_channels self q kv = Inr c"
  shows "AttentionBlock_call self p masks q kv tr = Inl ArrayError
       \<or> AttentionBlock_call self p masks q kv tr = Inl (AttributeError ''attn_dropout_rate'')"
  using assms AttentionBlock_weights_Inl [of self q kv c p]
  by (auto simp: AttentionBlock_call_cases split: sum.splits)

lemma AttentionBlock_channels_valid:
  assumes "ndim q = 3" and "ndim kv = 3" and "AttentionBlock.num_heads self \<noteq> 0"
    and "int (last (shape q)) mod AttentionBlock.num_heads self = 0"
  shows "AttentionBlock_channels self q kv =
           Inr (int (last (shape q)),
                py_or (AttentionBlock.head_ch self)
                  (py_int_truediv (int (last (shape q))) (AttentionBlock.num_heads self)),
                py_or (AttentionBlock.out_ch self) (int (last (shape q))))"
  using assms by (simp add: AttentionBlock_channels_def py_mod_def Let_def)

lemma AttentionBlock_scores_valid:
  assumes "ndim q = 3" and "ndim kv = 3" and "0 < AttentionBlock.num_heads self"
    and "int (last (shape q)) mod AttentionBlock.num_heads self = 0"
    and "0 \<le> py_or (AttentionBlock.head_ch self)
                  (py_int_truediv (int (last (shape q))) (AttentionBlock.num_heads self))"
    and "shape q ! 0 = shape kv ! 0"
  shows "\<exists>s v. AttentionBlock_scores self p q kv = Inr (s, v)"
  using assms
  by (simp add: AttentionBlock_scores_def AttentionBlock_channels_valid dim_of_def
      broadcast_dim_def Let_def)

lemma AttentionBlock_softmax_valid:
  assumes "ndim q = 3" and "ndim kv = 3" and "0 < AttentionBlock.num_heads self"
    and "int (last (shape q)) mod AttentionBlock.num_heads self = 0"
    and "0 \<le> py_or (AttentionBlock.head_ch self)
                  (py_int_truediv (int (last (shape q))) (AttentionBlock.num_heads self))"
    and "shape q ! 0 = shape kv ! 0"
  shows "\<exists>w v. AttentionBlock_softmax self p q kv = Inr (w, v)"
proof -
  from AttentionBlock_scores_valid [OF assms] obtain s v where
    s: "AttentionBlock_scores self p q kv = Inr (s, v)" by blast
  then show ?thesis
    by (simp add: AttentionBlock_softmax_def)
qed

lemma AttentionBlock_call_raises:
  assumes "ndim q = 3" and "ndim kv = 3" and "0 < AttentionBlock.num_heads self"
    and "int (last (shape q)) mod AttentionBlock.num_heads self = 0"
    and "0 \<le> py_or (AttentionBlock.head_ch self)
                  (py_int_truediv (int (last (shape q))) (AttentionBlock.num_heads self))"
    and "shape q ! 0 = shape kv ! 0"
  shows "AttentionBlock_call self p masks q kv tr = Inl (AttributeError ''attn_dropout_rate'')"
proof -
  from AttentionBlock_softmax_valid [OF assms] obtain w v where
    "AttentionBlock_softmax self p q kv = Inr (w, v)" by blast
  then have "\<exists>w. AttentionBlock_weights self p q kv = Inr w"
    by (simp add: AttentionBlock_weights_def)
  then show ?thesis
    using assms by (auto simp: AttentionBlock_call_cases AttentionBlock_channels_valid)
qed

lemma channels_head_ch_zero:
  "AttentionBlock_channels (self\<lparr>AttentionBlock.head_ch := Some 0\<rparr>) q kv
     = AttentionBlock_channels (self\<lparr>AttentionBlock.head_ch := None\<rparr>) q kv"
  by (simp add: AttentionBlock_channels_def Let_def py_or_zero cong: if_cong)

lemma channels_out_ch_zero:
  "AttentionBlock_channels (self\<lparr>AttentionBlock.out_ch := Some 0\<rparr>) q kv
     = AttentionBlock_channels (self\<lparr>AttentionBlock.out_ch := None\<rparr>) q kv"
  by (simp add: AttentionBlock_channels_def Let_def py_or_zero cong: if_cong)

lemma softmax_head_ch_zero:
  "AttentionBlock_softmax (self\<lparr>AttentionBlock.head_ch := Some 0\<rparr>) p q kv
     = AttentionBlock_softmax (self\<lparr>AttentionBlock.head_ch := None\<rparr>) p q kv"
  by (simp add: AttentionBlock_softmax_def AttentionBlock_scores_def channels_head_ch_zero)

lemma weights_head_ch_zero:
  "AttentionBlock_weights (self\<lparr>AttentionBlock.head_ch := Some 0\<rparr>) p q kv
     = AttentionBlock_weights (self\<lparr>AttentionBlock.head_ch := None\<rparr>) p q kv"
  by (simp add: AttentionBlock_weights_def softmax_head_ch_zero)

section \<open>Talking heads with the identity and with a swap of two heads\<close>

lemma channels_talking_heads [simp]:
  "AttentionBlock_channels (self\<lparr>AttentionBlock.talking_heads := t\<rparr>) q kv
     = AttentionBlock_channels self q kv"
  by (simp add: AttentionBlock_channels_def Let_def cong: if_cong)














section \<open>No call of the attention sublayer returns\<close>

lemma SelfAttentionBlock_call_not_Inr: "SelfAttentionBlock_call self p masks x tr \<noteq> Inr y"
  by (simp add: SelfAttentionBlock_call_def AttentionBlock_call_not_Inr)

lemma EncoderBlock_call_not_Inr: "EncoderBlock_call self vars x tr \<noteq> Inr y"
  by (auto simp: EncoderBlock_call_def ebind_eq_Inr SelfAttentionBlock_call_not_Inr)

lemma Encoder_blocks_Suc_not_Inr: "Encoder_blocks blk vars tr i (Suc n) x \<noteq> Inr y"
  by (auto simp: ebind_eq_Inr EncoderBlock_call_not_Inr)

section \<open>The class token and the head\<close>

lemma py_int_truediv_nonneg: "0 \<le> a \<Longrightarrow> 0 < b \<Longrightarrow> 0 \<le> py_int_truediv a b"
  by (simp add: py_int_truediv_def sgn_if pos_imp_zdiv_nonneg_iff)

text \<open>Under the assertion of line 28 the truncated quotient is the exact one.\<close>

lemma py_int_truediv_divisible:
  assumes "b \<noteq> 0" and "a mod b = 0"
  shows "py_int_truediv a b = a div b"
proof -
  from assms(2) obtain k where k: "a = b * k"
    by (auto simp: mod_eq_0_iff_dvd)
  have "\<bar>b * k\<bar> div \<bar>b\<bar> = \<bar>k\<bar>"
    using assms(1) by (simp add: abs_mult)
  moreover have "sgn (b * k) * sgn b * \<bar>k\<bar> = k"
  proof -
    have "sgn b * sgn b = 1"
      using assms(1) by (simp add: sgn_if)
    then have "sgn (b * k) * sgn b * \<bar>k\<bar> = sgn k * \<bar>k\<bar>"
      by (simp add: sgn_mult mult.commute mult.left_commute)
    then show ?thesis
      by (simp add: mult_sgn_abs)
  qed
  ultimately show ?thesis
    using assms(1) by (simp add: py_int_truediv_def k)
qed

lemma EncoderBlock_call_raises:
  assumes "block_vars.LayerNorm_0 vars (EncoderBlock.dtype self) x = Inr x'"
    and "ndim x' = 3" and "0 < EncoderBlock.num_heads self"
    and "int (last (shape x')) mod EncoderBlock.num_heads self = 0"
  shows "EncoderBlock_call self vars x tr = Inl (AttributeError ''attn_dropout_rate'')"
proof -
  have "SelfAttentionBlock_call (EncoderBlock_attention self) (SelfAttentionBlock_0 vars)
          (attention_masks vars) x' tr
      = Inl (AttributeError ''attn_dropout_rate'')"
    unfolding SelfAttentionBlock_call_def
    using assms
    by (intro AttentionBlock_call_raises)
       (simp_all add: EncoderBlock_attention_def SelfAttentionBlock_new_def
          SelfAttentionBlock_attention_def py_or_def py_int_truediv_nonneg)
  then show ?thesis
    by (simp add: EncoderBlock_call_def assms(1))
qed

lemma shape_tile_cls [simp]:
  "shape (tile (tensor3 (Suc 0) (Suc 0) e f) [b, Suc 0, Suc 0]) = [b, Suc 0, e]"
  by (simp add: tile_def)

lemma el_tile_cls:
  assumes "i < b" and "c < e"
  shows "el (tile (tensor3 (Suc 0) (Suc 0) e f) [b, Suc 0, Suc 0]) [i, 0, c] = f 0 0 c"
  using assms by (simp add: tile_def el_tensor_of valid_index_def el_tensor3)

lemma ndim_3_shape: "ndim t = 3 \<Longrightarrow> \<exists>a b c. shape t = [a, b, c]"
  by (auto simp: ndim_def numeral_3_eq_3 length_Suc_conv)

lemma concatenate_axis1_Inr:
  assumes "concatenate_axis1 a x = Inr y"
  shows "shape y = (shape a)[1 := shape a ! 1 + shape x ! 1]"
    and "(shape a)[1 := 0] = (shape x)[1 := 0]"
    and "valid_index (shape y) ix \<Longrightarrow>
           el y ix = (if ix ! 1 < shape a ! 1 then el a ix
                      else el x (ix[1 := ix ! 1 - shape a ! 1]))"
  using assms by (auto simp: concatenate_axis1_def el_tensor_of split: if_splits)

lemma ViT_tokens_Inr:
  assumes "ViT_tokens self vars inputs = Inr x"
  shows "\<exists>patches b l. PatchEmbedBlock_0 vars (ViT_patch_embed self) inputs = Inr patches
      \<and> shape patches = [b, l, nat (ViT.embed_dim self)]
      \<and> shape x = [b, 1 + l, nat (ViT.embed_dim self)]
      \<and> (\<forall>i<b. \<forall>c<nat (ViT.embed_dim self). el x [i, 0, c] = cls vars c)
      \<and> (\<forall>i<b. \<forall>j<l. \<forall>c<nat (ViT.embed_dim self). el x [i, Suc j, c] = el patches [i, j, c])"
proof -
  let ?e = "nat (ViT.embed_dim self)"
  from assms obtain patches where
    p: "PatchEmbedBlock_0 vars (ViT_patch_embed self) inputs = Inr patches"
    and r: "ndim patches = 3"
    and c: "concatenate_axis1
              (tile (tensor3 1 1 ?e (\<lambda>i j c. cls vars c)) [shape patches ! 0, 1, 1])
              patches = Inr x"
    by (auto simp: ViT_tokens_def ebind_eq_Inr dim_of_def Let_def split: if_splits)
  from ndim_3_shape [OF r] obtain b l e' where sh: "shape patches = [b, l, e']"
    by blast
  let ?t = "tile (tensor3 (Suc 0) (Suc 0) ?e (\<lambda>i j c. cls vars c)) [b, Suc 0, Suc 0]"
  from c sh have c': "concatenate_axis1 ?t patches = Inr x"
    by simp
  have e': "e' = ?e"
    using concatenate_axis1_Inr(2) [OF c'] sh by simp
  have shx: "shape x = [b, 1 + l, ?e]"
    using concatenate_axis1_Inr(1) [OF c'] sh by simp
  have "el x [i, 0, c] = cls vars c" if "i < b" "c < ?e" for i c
    using that concatenate_axis1_Inr(3) [OF c', of "[i, 0, c]"]
    by (simp add: shx valid_index_def el_tile_cls)
  moreover have "el x [i, Suc j, c] = el patches [i, j, c]" if "i < b" "j < l" "c < ?e" for i j c
    using that concatenate_axis1_Inr(3) [OF c', of "[i, Suc j, c]"]
    by (simp add: shx valid_index_def)
  ultimately show ?thesis
    using p sh e' shx by blast
qed

lemma ViT_head_logits:
  assumes "shape enc = [b, Suc l, e]" and "0 \<le> ViT.num_classes self"
  shows "\<exists>y. ebind (index_axis1_0 enc) (Dense_call (ViT_head self) K bias) = Inr y
           \<and> shape y = [b, nat (ViT.num_classes self)]
           \<and> (\<forall>i<b. \<forall>n<nat (ViT.num_classes self).
                 el y [i, n] = (\<Sum>c\<leftarrow>[0..<e]. el enc [i, 0, c] * K c n) + bias n)"
proof -
  let ?r = "tensor_of [b, e] (\<lambda>ix. el enc (hd ix # 0 # tl ix))"
  let ?n = "nat (ViT.num_classes self)"
  let ?y = "tensor_of [b, ?n]
              (\<lambda>ix. (\<Sum>c\<leftarrow>[0..<e]. el ?r (butlast ix @ [c]) * K c (last ix)) + bias (last ix))"
  have r: "index_axis1_0 enc = Inr ?r"
    using assms(1) by (simp add: index_axis1_0_def ndim_def)
  have y: "Dense_call (ViT_head self) K bias ?r = Inr ?y"
    using assms(2) by (simp add: Dense_call_def ndim_def dim_of_def ViT_head_def)
  have "el ?y [i, n] = (\<Sum>c\<leftarrow>[0..<e]. el enc [i, 0, c] * K c n) + bias n"
    if "i < b" "n < ?n" for i n
  proof -
    have "map (\<lambda>c. el ?r [i, c] * K c n) [0..<e] = map (\<lambda>c. el enc [i, 0, c] * K c n) [0..<e]"
      using that by (intro map_cong) (auto simp: el_tensor_of valid_index_def)
    then have "(\<Sum>c\<leftarrow>[0..<e]. el ?r [i, c] * K c n) = (\<Sum>c\<leftarrow>[0..<e]. el enc [i, 0, c] * K c n)"
      by (rule arg_cong)
    moreover have "el ?y [i, n] = (\<Sum>c\<leftarrow>[0..<e]. el ?r [i, c] * K c n) + bias n"
      using that by (simp add: el_tensor_of [of "[b, ?n]"] valid_index_def)
    ultimately show ?thesis by simp
  qed
  then show ?thesis
    using r y by (simp del: shape_tensor_of add: shape_tensor_of [of "[b, ?n]"])
qed

lemma sample_tokens:
  "\<exists>x. ViT_tokens (ViT_new 10 nl 8 64 (16, 16)) sample_vit_vars sample_image = Inr x
       \<and> shape x = [4, 5, 64]"
  by (simp add: ViT_tokens_def ViT_new_def py_mod_def sample_vit_vars_def sample_image_def
      ViT_patch_embed_def ndim_def dim_of_def concatenate_axis1_def Let_def)

lemma Encoder_call_no_layers:
  "Encoder_call (ViT_encoder (ViT_new nc 0 nh ed ps)) sample_encoder_vars x tr = Inr x"
  by (simp add: Encoder_call_def ViT_encoder_def ViT_new_def sample_encoder_vars_def Dropout_def)

lemma Dense_call_zero:
  assumes "Dense_call self (\<lambda>c n. 0) (\<lambda>n. 0) x = Inr y"
  shows "el y ix = 0"
  using assms
  by (auto simp: Dense_call_def ebind_eq_Inr el_tensor_of split: if_splits)

lemma ViT_call_zero_head:
  assumes "ViT_call self vars inputs is_training = Inr y"
    and "Dense_0_kernel vars = (\<lambda>c n. 0)" and "Dense_0_bias vars = (\<lambda>n. 0)"
  shows "el y ix = 0"
  using assms Dense_call_zero
  by (auto simp: ViT_call_def ebind_eq_Inr)

lemma ViT_call_layers_not_Inr:
  assumes "0 < ViT.num_layers self"
  shows "ViT_call self vars inputs is_training \<noteq> Inr y"
proof -
  from assms obtain n where "nat (Encoder.num_layers (ViT_encoder self)) = Suc n"
    by (cases "nat (ViT.num_layers self)") (auto simp: ViT_encoder_def)
  then have "Encoder_call (ViT_encoder self) ev x is_training \<noteq> Inr z" for ev x z
    by (auto simp: Encoder_call_def ebind_eq_Inr Let_def EncoderBlock_call_not_Inr)
  then show ?thesis
    by (auto simp: ViT_call_def ebind_eq_Inr)
qed

section \<open>The claims\<close>

text \<open>
  C1. The attention-weights dropout of line 70 is constructed with
  \<^verbatim>\<open>self.attn_dropout_rate\<close>, a name \<^verbatim>\<open>AttentionBlock\<close> does not declare (its field
  is \<^verbatim>\<open>attn_drop_rate\<close>). A call in training mode with rank-3 inputs of 4 channels, 2
  heads and an attention dropout rate of 1/2 applies no dropout: it raises
  \<^verbatim>\<open>AttributeError\<close>.
\<close>

theorem AttentionBlock_call_attn_dropout_rate:
  "AttentionBlock_call ((AttentionBlock_new 2)\<lparr>AttentionBlock.attn_drop_rate := 1 / 2\<rparr>)
     sample_params sample_masks (sample_tensor 1 3 4) (sample_tensor 1 3 4) True
   = Inl (AttributeError ''attn_dropout_rate'')"
  by (rule AttentionBlock_call_raises)
     (simp_all add: ndim_def AttentionBlock_new_def py_or_def py_int_truediv_def)

text \<open>
  C2. \<^verbatim>\<open>SelfAttentionBlock\<close> with 2 heads on an input of shape \<open>(2, 5, 8)\<close> returns no
  array of shape \<open>(2, 5, 8)\<close>: the call raises \<^verbatim>\<open>AttributeError\<close> at line 70 of the
  \<^verbatim>\<open>AttentionBlock\<close> it delegates to.
\<close>

theorem SelfAttentionBlock_call_scenario:
  "SelfAttentionBlock_call (SelfAttentionBlock_new 2) sample_params sample_masks
     (sample_tensor 2 5 8) False
   = Inl (AttributeError ''attn_dropout_rate'')"
  unfolding SelfAttentionBlock_call_def
  by (rule AttentionBlock_call_raises)
     (simp_all add: ndim_def SelfAttentionBlock_new_def SelfAttentionBlock_attention_def
        py_or_def py_int_truediv_def)




text \<open>
  C4. \<^verbatim>\<open>EncoderBlock\<close> with 2 heads on an input of shape \<open>(2, 5, 8)\<close>, with layer
  normalisations and a feed-forward block that return their input, computes no residual
  sum: its attention sublayer raises \<^verbatim>\<open>AttributeError\<close>.
\<close>

theorem EncoderBlock_call_scenario:
  "EncoderBlock_call (EncoderBlock_new 2) sample_block_vars (sample_tensor 2 5 8) False
     = Inl (AttributeError ''attn_dropout_rate'')"
proof -
  have "SelfAttentionBlock_call (EncoderBlock_attention (EncoderBlock_new 2)) sample_params
          sample_masks (sample_tensor 2 5 8) False
      = Inl (AttributeError ''attn_dropout_rate'')"
    unfolding SelfAttentionBlock_call_def
    by (rule AttentionBlock_call_raises)
       (simp_all add: ndim_def EncoderBlock_attention_def EncoderBlock_new_def
          SelfAttentionBlock_new_def SelfAttentionBlock_attention_def py_or_def py_int_truediv_def)
  then show ?thesis
    by (simp add: EncoderBlock_call_def sample_block_vars_def)
qed

text \<open>
  C5. The softmax of line 59 normalises over the key axis: for inputs with at least one
  key position, whenever the attention weights right after the softmax are computed,
  they have shape \<open>(batch, num_heads, query length, key length)\<close> and, for every batch
  entry, head and query position, their sum over the key positions is 1.
\<close>

theorem softmax_weights_sum_to_one:
  assumes "AttentionBlock_softmax self p inputs_q inputs_kv = Inr (w, v)"
    and "0 < shape inputs_kv ! 1"
  shows "\<exists>B. broadcast_dim (shape inputs_q ! 0) (shape inputs_kv ! 0) = Inr B
    \<and> shape w = [B, nat (AttentionBlock.num_heads self), shape inputs_q ! 1, shape inputs_kv ! 1]
    \<and> (\<forall>b<B. \<forall>h<nat (AttentionBlock.num_heads self). \<forall>i<shape inputs_q ! 1.
          (\<Sum>k\<leftarrow>[0..<shape inputs_kv ! 1]. el w [b, h, i, k]) = 1)"
proof -
  from AttentionBlock_softmax_Inr [OF assms(1)] obtain B s where
    B: "broadcast_dim (shape inputs_q ! 0) (shape inputs_kv ! 0) = Inr B" and
    s: "shape s = [B, nat (AttentionBlock.num_heads self), shape inputs_q ! 1, shape inputs_kv ! 1]" and
    w: "w = softmax s"
    by blast
  have "shape w = [B, nat (AttentionBlock.num_heads self), shape inputs_q ! 1, shape inputs_kv ! 1]"
    using w s by simp
  moreover have "(\<Sum>k\<leftarrow>[0..<shape inputs_kv ! 1]. el w [b, h, i, k]) = 1"
    if "b < B" "h < nat (AttentionBlock.num_heads self)" "i < shape inputs_q ! 1" for b h i
    using softmax_row_sum [of s b h i] that s assms(2) w by simp
  ultimately show ?thesis using B by blast
qed

theorem softmax_weights_sum_to_one_witness:
  "\<exists>w v. AttentionBlock_softmax (AttentionBlock_new 2) sample_params
            (sample_tensor 1 3 4) (sample_tensor 1 3 4) = Inr (w, v)
         \<and> shape w = [1, 2, 3, 3]
         \<and> (\<Sum>k\<leftarrow>[0..<3]. el w [0, 1, 2, k]) = 1"
proof -
  have "\<exists>w v. AttentionBlock_softmax (AttentionBlock_new 2) sample_params
            (sample_tensor 1 3 4) (sample_tensor 1 3 4) = Inr (w, v)"
    by (rule AttentionBlock_softmax_valid)
       (simp_all add: ndim_def AttentionBlock_new_def py_or_def py_int_truediv_def)
  then obtain w v where r: "AttentionBlock_softmax (AttentionBlock_new 2) sample_params
            (sample_tensor 1 3 4) (sample_tensor 1 3 4) = Inr (w, v)" by blast
  have k: "0 < shape (sample_tensor 1 3 4) ! 1" by simp
  from softmax_weights_sum_to_one [OF r k]
  have "shape w = [1, 2, 3, 3] \<and> (\<Sum>k\<leftarrow>[0..<3]. el w [0, 1, 2, k]) = 1"
    by (simp add: broadcast_dim_def AttentionBlock_new_def)
  with r show ?thesis by blast
qed

text \<open>
  With no key position (inputs_kv of shape \<open>(1, 0, 4)\<close>) the weights are computed, have
  shape \<open>(1, 2, 3, 0)\<close>, and their sum over the key axis is 0.
\<close>

theorem softmax_empty_key_axis_counterexample:
  "\<exists>w v. AttentionBlock_softmax (AttentionBlock_new 2) sample_params
            (sample_tensor 1 3 4) (sample_tensor 1 0 4) = Inr (w, v)
         \<and> shape w = [1, 2, 3, 0]
         \<and> (\<Sum>k\<leftarrow>[0..<shape w ! 3]. el w [0, 0, 0, k]) = 0
         \<and> (\<Sum>k\<leftarrow>[0..<shape w ! 3]. el w [0, 0, 0, k]) \<noteq> 1"
proof -
  have "\<exists>w v. AttentionBlock_softmax (AttentionBlock_new 2) sample_params
            (sample_tensor 1 3 4) (sample_tensor 1 0 4) = Inr (w, v)"
    by (rule AttentionBlock_softmax_valid)
       (simp_all add: ndim_def AttentionBlock_new_def py_or_def py_int_truediv_def)
  then obtain w v where r: "AttentionBlock_softmax (AttentionBlock_new 2) sample_params
            (sample_tensor 1 3 4) (sample_tensor 1 0 4) = Inr (w, v)" by blast
  from AttentionBlock_softmax_Inr [OF r] have "shape w = [1, 2, 3, 0]"
    by (auto simp: broadcast_dim_def AttentionBlock_new_def)
  with r show ?thesis by auto
qed

text \<open>
  C6. For rank-3 inputs, when \<^verbatim>\<open>in_ch % num_heads\<close> is not 0 the call fails with the
  assertion of line 28, and so does the computation of the attention weights: no array
  is computed. When it is 0, the call raises no \<^verbatim>\<open>AssertionError\<close>.
\<close>

theorem heads_divide_channels_assertion:
  assumes "ndim q = 3" and "ndim kv = 3"
  shows "(\<forall>r. py_mod (int (last (shape q))) (AttentionBlock.num_heads self) = Inr r \<and> r \<noteq> 0 \<longrightarrow>
            AttentionBlock_softmax self p q kv = Inl (AssertionError HeadsDivideChannels)
          \<and> AttentionBlock_call self p masks q kv tr = Inl (AssertionError HeadsDivideChannels))
       \<and> (py_mod (int (last (shape q))) (AttentionBlock.num_heads self) = Inr 0 \<longrightarrow>
            (\<forall>a. AttentionBlock_call self p masks q kv tr \<noteq> Inl (AssertionError a)))"
proof (intro conjI allI impI)
  fix r
  assume "py_mod (int (last (shape q))) (AttentionBlock.num_heads self) = Inr r \<and> r \<noteq> 0"
  then have ch: "AttentionBlock_channels self q kv = Inl (AssertionError HeadsDivideChannels)"
    using assms by (simp add: AttentionBlock_channels_def)
  show "AttentionBlock_softmax self p q kv = Inl (AssertionError HeadsDivideChannels)"
    by (simp add: AttentionBlock_softmax_def AttentionBlock_scores_def ch)
  show "AttentionBlock_call self p masks q kv tr = Inl (AssertionError HeadsDivideChannels)"
    by (simp add: AttentionBlock_call_def ch)
next
  fix a
  assume "py_mod (int (last (shape q))) (AttentionBlock.num_heads self) = Inr 0"
  then have "\<exists>c. AttentionBlock_channels self q kv = Inr c"
    using assms by (simp add: AttentionBlock_channels_def Let_def)
  then show "AttentionBlock_call self p masks q kv tr \<noteq> Inl (AssertionError a)"
    using AttentionBlock_call_divisible [of self q kv _ p masks tr] by auto
qed

theorem heads_divide_channels_assertion_witness:
  "py_mod 3 2 = Inr 1
   \<and> AttentionBlock_call (AttentionBlock_new 2) sample_params sample_masks
        (sample_tensor 1 2 3) (sample_tensor 1 2 3) True
      = Inl (AssertionError HeadsDivideChannels)
   \<and> py_mod 4 2 = Inr 0
   \<and> (\<forall>a. AttentionBlock_call (AttentionBlock_new 2) sample_params sample_masks
        (sample_tensor 1 2 4) (sample_tensor 1 2 4) True
      \<noteq> Inl (AssertionError a))"
  using heads_divide_channels_assertion [of "sample_tensor 1 2 3" "sample_tensor 1 2 3" "AttentionBlock_new 2"
               sample_params sample_masks True]
        heads_divide_channels_assertion [of "sample_tensor 1 2 4" "sample_tensor 1 2 4" "AttentionBlock_new 2"
               sample_params sample_masks True]
  by (simp add: ndim_def py_mod_def AttentionBlock_new_def)

text \<open>
  C7. A \<^verbatim>\<open>ViT\<close> with one layer (\<^verbatim>\<open>embed_dim=64\<close>, \<^verbatim>\<open>num_heads=8\<close>) on a batch of 4
  images: the sequence given to the \<^verbatim>\<open>Encoder\<close> has the \<^verbatim>\<open>cls\<close> array in row 0 and the
  first patch token in row 1, but the \<^verbatim>\<open>Encoder\<close> raises \<^verbatim>\<open>AttributeError\<close>: line 123
  is not reached and no row of an encoder output is given to the head.
\<close>

theorem ViT_call_class_token_scenario:
  "\<exists>x. ViT_tokens (ViT_new 10 1 8 64 (16, 16)) sample_vit_vars sample_image = Inr x
     \<and> shape x = [4, 5, 64]
     \<and> el x [3, 0, 63] = - 64
     \<and> el x [3, 1, 63] = 66
     \<and> Encoder_call (ViT_encoder (ViT_new 10 1 8 64 (16, 16))) (Encoder_0 sample_vit_vars) x False
         = Inl (AttributeError ''attn_dropout_rate'')
     \<and> ViT_call (ViT_new 10 1 8 64 (16, 16)) sample_vit_vars sample_image False
         = Inl (AttributeError ''attn_dropout_rate'')"
proof -
  from sample_tokens [of 1] obtain x where
    x: "ViT_tokens (ViT_new 10 1 8 64 (16, 16)) sample_vit_vars sample_image = Inr x"
    and sx: "shape x = [4, 5, 64]" by blast
  from ViT_tokens_Inr [OF x] sx
  have el: "el x [3, 0, 63] = - 64 \<and> el x [3, 1, 63] = 66"
    by (auto simp: ViT_new_def sample_vit_vars_def ViT_patch_embed_def sample_image_def
        el_tensor3)
  have blk: "EncoderBlock_call (Encoder_block (ViT_encoder (ViT_new 10 1 8 64 (16, 16))))
          sample_block_vars x False
      = Inl (AttributeError ''attn_dropout_rate'')"
    by (rule EncoderBlock_call_raises [where x' = x])
       (simp_all add: sample_block_vars_def sx ndim_def Encoder_block_def ViT_encoder_def
          ViT_new_def EncoderBlock_new_def)
  have "nat (Encoder.num_layers (ViT_encoder (ViT_new 10 1 8 64 (16, 16)))) = Suc 0"
    by (simp add: ViT_encoder_def ViT_new_def)
  then have enc: "Encoder_call (ViT_encoder (ViT_new 10 1 8 64 (16, 16))) (Encoder_0 sample_vit_vars) x False
      = Inl (AttributeError ''attn_dropout_rate'')"
    by (simp add: Encoder_call_def sample_vit_vars_def sample_encoder_vars_def Dropout_def blk)
  then have "ViT_call (ViT_new 10 1 8 64 (16, 16)) sample_vit_vars sample_image False
      = Inl (AttributeError ''attn_dropout_rate'')"
    by (simp add: ViT_call_def x)
  with x sx el enc show ?thesis by blast
qed

text \<open>
  C8. A \<^verbatim>\<open>ViT\<close> with \<^verbatim>\<open>embed_dim=64\<close>, \<^verbatim>\<open>num_heads=8\<close>, \<^verbatim>\<open>num_layers=2\<close>,
  \<^verbatim>\<open>num_classes=10\<close> and a head at all zeros, on a batch of 4 images, returns no
  logits: its first \<^verbatim>\<open>EncoderBlock\<close> raises \<^verbatim>\<open>AttributeError\<close>.
\<close>

theorem ViT_call_scenario:
  "ViT_call ((ViT_new 10 2 8 64 (16, 16))) sample_vit_vars sample_image False
     = Inl (AttributeError ''attn_dropout_rate'')"
proof -
  from sample_tokens [of 2] obtain x where
    x: "ViT_tokens (ViT_new 10 2 8 64 (16, 16)) sample_vit_vars sample_image = Inr x"
    and sx: "shape x = [4, 5, 64]" by blast
  have blk: "EncoderBlock_call (Encoder_block (ViT_encoder (ViT_new 10 2 8 64 (16, 16))))
          sample_block_vars x False
      = Inl (AttributeError ''attn_dropout_rate'')"
    by (rule EncoderBlock_call_raises [where x' = x])
       (simp_all add: sample_block_vars_def sx ndim_def Encoder_block_def ViT_encoder_def
          ViT_new_def EncoderBlock_new_def)
  have "nat (Encoder.num_layers (ViT_encoder (ViT_new 10 2 8 64 (16, 16)))) = Suc (Suc 0)"
    by (simp add: ViT_encoder_def ViT_new_def)
  then have "Encoder_call (ViT_encoder (ViT_new 10 2 8 64 (16, 16))) (Encoder_0 sample_vit_vars) x False
      = Inl (AttributeError ''attn_dropout_rate'')"
    by (simp add: Encoder_call_def sample_vit_vars_def sample_encoder_vars_def Dropout_def blk)
  then show ?thesis
    by (simp add: ViT_call_def x)
qed

text \<open>
  C9. The \<^verbatim>\<open>AttentionBlock\<close> inside an \<^verbatim>\<open>EncoderBlock\<close> has \<^verbatim>\<open>talking_heads=False\<close>,
  \<^verbatim>\<open>use_bias=False\<close> and \<^verbatim>\<open>bias_init=zeros\<close>, whatever the configuration of the
  \<^verbatim>\<open>EncoderBlock\<close>, of the \<^verbatim>\<open>Encoder\<close> or of the \<^verbatim>\<open>ViT\<close> that builds it; its attention
  weights, and the result of the block, do not depend on the talking-heads matrices or
  on the projection biases.
\<close>

theorem encoder_attention_configuration:
  "AttentionBlock.talking_heads (SelfAttentionBlock_attention (EncoderBlock_attention blk)) = False
   \<and> AttentionBlock.use_bias (SelfAttentionBlock_attention (EncoderBlock_attention blk)) = False
   \<and> AttentionBlock.bias_init (SelfAttentionBlock_attention (EncoderBlock_attention blk)) = zeros
   \<and> AttentionBlock.talking_heads
        (SelfAttentionBlock_attention (EncoderBlock_attention (Encoder_block enc))) = False
   \<and> AttentionBlock.use_bias
        (SelfAttentionBlock_attention (EncoderBlock_attention (Encoder_block enc))) = False
   \<and> AttentionBlock.bias_init
        (SelfAttentionBlock_attention (EncoderBlock_attention (Encoder_block enc))) = zeros
   \<and> AttentionBlock.talking_heads
        (SelfAttentionBlock_attention (EncoderBlock_attention (Encoder_block (ViT_encoder vit)))) = False
   \<and> AttentionBlock.use_bias
        (SelfAttentionBlock_attention (EncoderBlock_attention (Encoder_block (ViT_encoder vit)))) = False
   \<and> AttentionBlock.bias_init
        (SelfAttentionBlock_attention (EncoderBlock_attention (Encoder_block (ViT_encoder vit)))) = zeros
   \<and> AttentionBlock_weights (SelfAttentionBlock_attention (EncoderBlock_attention blk))
        (p\<lparr>pre_softmax := m1, post_softmax := m2,
           queries_bias := b1, keys_bias := b2, values_bias := b3\<rparr>) q kv
      = AttentionBlock_weights (SelfAttentionBlock_attention (EncoderBlock_attention blk)) p q kv
   \<and> EncoderBlock_call blk
        (vars\<lparr>SelfAttentionBlock_0 := (SelfAttentionBlock_0 vars)\<lparr>pre_softmax := m1, post_softmax := m2,
           queries_bias := b1, keys_bias := b2, values_bias := b3, out_bias := b4\<rparr>\<rparr>) x tr
      = EncoderBlock_call blk vars x tr"
proof -
  have cfg: "AttentionBlock.talking_heads (SelfAttentionBlock_attention (EncoderBlock_attention b)) = False
     \<and> AttentionBlock.use_bias (SelfAttentionBlock_attention (EncoderBlock_attention b)) = False
     \<and> AttentionBlock.bias_init (SelfAttentionBlock_attention (EncoderBlock_attention b)) = zeros" for b
    by (simp add: SelfAttentionBlock_attention_def EncoderBlock_attention_def
        SelfAttentionBlock_new_def)
  have w: "AttentionBlock_weights (SelfAttentionBlock_attention (EncoderBlock_attention blk))
        (p\<lparr>pre_softmax := m1, post_softmax := m2,
           queries_bias := b1, keys_bias := b2, values_bias := b3\<rparr>) q kv
      = AttentionBlock_weights (SelfAttentionBlock_attention (EncoderBlock_attention blk)) p q kv"
    for p q kv
    by (simp add: AttentionBlock_weights_def AttentionBlock_softmax_def AttentionBlock_scores_def
        cfg DenseGeneral_heads_def)
  have w': "AttentionBlock_weights (SelfAttentionBlock_attention (EncoderBlock_attention blk))
        (p\<lparr>pre_softmax := m1, post_softmax := m2,
           queries_bias := b1, keys_bias := b2, values_bias := b3, out_bias := b4\<rparr>) q kv
      = AttentionBlock_weights (SelfAttentionBlock_attention (EncoderBlock_attention blk)) p q kv"
    for p q kv
    by (simp add: AttentionBlock_weights_def AttentionBlock_softmax_def AttentionBlock_scores_def
        cfg DenseGeneral_heads_def)
  have "AttentionBlock_call (SelfAttentionBlock_attention (EncoderBlock_attention blk))
        (p\<lparr>pre_softmax := m1, post_softmax := m2,
           queries_bias := b1, keys_bias := b2, values_bias := b3, out_bias := b4\<rparr>) masks q kv tr
      = AttentionBlock_call (SelfAttentionBlock_attention (EncoderBlock_attention blk)) p masks q kv tr"
    for p masks q kv
    by (simp only: AttentionBlock_call_cases w')
  then have "EncoderBlock_call blk
        (vars\<lparr>SelfAttentionBlock_0 := (SelfAttentionBlock_0 vars)\<lparr>pre_softmax := m1, post_softmax := m2,
           queries_bias := b1, keys_bias := b2, values_bias := b3, out_bias := b4\<rparr>\<rparr>) x tr
      = EncoderBlock_call blk vars x tr"
    by (simp add: EncoderBlock_call_def SelfAttentionBlock_call_def)
  with cfg w show ?thesis by simp
qed

text \<open>
  C10. \<^verbatim>\<open>head_ch = 0\<close> behaves as \<^verbatim>\<open>head_ch = None\<close> and \<^verbatim>\<open>out_ch = 0\<close> as
  \<^verbatim>\<open>out_ch = None\<close>: the channels resolved by lines 29-30, the attention weights and
  the result of the call are the same. For rank-3 inputs that pass the assertion of
  line 28, \<^verbatim>\<open>head_ch = 0\<close> and \<^verbatim>\<open>head_ch = None\<close> both resolve to \<open>in_ch / num_heads\<close>,
  and \<^verbatim>\<open>out_ch = 0\<close> and \<^verbatim>\<open>out_ch = None\<close> both resolve to \<open>in_ch\<close>; the other of the
  two fields is its configured value when that is given and not 0.
\<close>

theorem falsy_head_ch_out_ch:
  "AttentionBlock_channels (self\<lparr>AttentionBlock.head_ch := Some 0\<rparr>) q kv
     = AttentionBlock_channels (self\<lparr>AttentionBlock.head_ch := None\<rparr>) q kv
   \<and> AttentionBlock_weights (self\<lparr>AttentionBlock.head_ch := Some 0\<rparr>) p q kv
     = AttentionBlock_weights (self\<lparr>AttentionBlock.head_ch := None\<rparr>) p q kv
   \<and> AttentionBlock_call (self\<lparr>AttentionBlock.head_ch := Some 0\<rparr>) p masks q kv tr
     = AttentionBlock_call (self\<lparr>AttentionBlock.head_ch := None\<rparr>) p masks q kv tr
   \<and> AttentionBlock_channels (self\<lparr>AttentionBlock.out_ch := Some 0\<rparr>) q kv
     = AttentionBlock_channels (self\<lparr>AttentionBlock.out_ch := None\<rparr>) q kv
   \<and> AttentionBlock_call (self\<lparr>AttentionBlock.out_ch := Some 0\<rparr>) p masks q kv tr
     = AttentionBlock_call (self\<lparr>AttentionBlock.out_ch := None\<rparr>) p masks q kv tr
   \<and> (ndim q = 3 \<and> ndim kv = 3 \<and> AttentionBlock.num_heads self \<noteq> 0
        \<and> int (last (shape q)) mod AttentionBlock.num_heads self = 0 \<longrightarrow>
        AttentionBlock_channels (self\<lparr>AttentionBlock.head_ch := Some 0\<rparr>) q kv
          = Inr (int (last (shape q)),
                 int (last (shape q)) div AttentionBlock.num_heads self,
                 (case AttentionBlock.out_ch self of
                    None \<Rightarrow> int (last (shape q))
                  | Some c \<Rightarrow> if c = 0 then int (last (shape q)) else c))
      \<and> AttentionBlock_channels (self\<lparr>AttentionBlock.head_ch := None\<rparr>) q kv
          = Inr (int (last (shape q)),
                 int (last (shape q)) div AttentionBlock.num_heads self,
                 (case AttentionBlock.out_ch self of
                    None \<Rightarrow> int (last (shape q))
                  | Some c \<Rightarrow> if c = 0 then int (last (shape q)) else c))
      \<and> AttentionBlock_channels (self\<lparr>AttentionBlock.out_ch := Some 0\<rparr>) q kv
          = Inr (int (last (shape q)),
                 (case AttentionBlock.head_ch self of
                    None \<Rightarrow> int (last (shape q)) div AttentionBlock.num_heads self
                  | Some c \<Rightarrow> if c = 0 then int (last (shape q)) div AttentionBlock.num_heads self
                              else c),
                 int (last (shape q)))
      \<and> AttentionBlock_channels (self\<lparr>AttentionBlock.out_ch := None\<rparr>) q kv
          = Inr (int (last (shape q)),
                 (case AttentionBlock.head_ch self of
                    None \<Rightarrow> int (last (shape q)) div AttentionBlock.num_heads self
                  | Some c \<Rightarrow> if c = 0 then int (last (shape q)) div AttentionBlock.num_heads self
                              else c),
                 int (last (shape q))))"
proof -
  have "AttentionBlock_call (self\<lparr>AttentionBlock.head_ch := Some 0\<rparr>) p masks q kv tr
     = AttentionBlock_call (self\<lparr>AttentionBlock.head_ch := None\<rparr>) p masks q kv tr"
    by (simp add: AttentionBlock_call_def channels_head_ch_zero weights_head_ch_zero
        AttentionBlock_getattr_def)
  moreover have "AttentionBlock_call (self\<lparr>AttentionBlock.out_ch := Some 0\<rparr>) p masks q kv tr
     = AttentionBlock_call (self\<lparr>AttentionBlock.out_ch := None\<rparr>) p masks q kv tr"
    by (simp add: AttentionBlock_call_def channels_out_ch_zero AttentionBlock_weights_def
        AttentionBlock_softmax_def AttentionBlock_scores_def AttentionBlock_getattr_def)
  moreover have "AttentionBlock_channels (self\<lparr>AttentionBlock.head_ch := x\<rparr>) q kv
          = Inr (int (last (shape q)),
                 int (last (shape q)) div AttentionBlock.num_heads self,
                 (case AttentionBlock.out_ch self of
                    None \<Rightarrow> int (last (shape q))
                  | Some c \<Rightarrow> if c = 0 then int (last (shape q)) else c))"
    if "ndim q = 3" "ndim kv = 3" "AttentionBlock.num_heads self \<noteq> 0"
      "int (last (shape q)) mod AttentionBlock.num_heads self = 0" "x = Some 0 \<or> x = None" for x
    using that
    by (auto simp: AttentionBlock_channels_valid py_or_def py_int_truediv_divisible
        split: option.splits)
  moreover have "AttentionBlock_channels (self\<lparr>AttentionBlock.out_ch := x\<rparr>) q kv
          = Inr (int (last (shape q)),
                 (case AttentionBlock.head_ch self of
                    None \<Rightarrow> int (last (shape q)) div AttentionBlock.num_heads self
                  | Some c \<Rightarrow> if c = 0 then int (last (shape q)) div AttentionBlock.num_heads self
                              else c),
                 int (last (shape q)))"
    if "ndim q = 3" "ndim kv = 3" "AttentionBlock.num_heads self \<noteq> 0"
      "int (last (shape q)) mod AttentionBlock.num_heads self = 0" "x = Some 0 \<or> x = None" for x
    using that
    by (auto simp: AttentionBlock_channels_valid py_or_def py_int_truediv_divisible
        split: option.splits)
  ultimately show ?thesis
    by (simp add: channels_head_ch_zero channels_out_ch_zero weights_head_ch_zero)
qed

theorem falsy_head_ch_out_ch_witness:
  "AttentionBlock_channels ((AttentionBlock_new 2)\<lparr>AttentionBlock.out_ch := Some 6,
       AttentionBlock.head_ch := Some 0\<rparr>) (sample_tensor 1 3 4) (sample_tensor 1 3 4)
     = Inr (4, 2, 6)
   \<and> AttentionBlock_channels ((AttentionBlock_new 2)\<lparr>AttentionBlock.out_ch := Some 6,
       AttentionBlock.head_ch := None\<rparr>) (sample_tensor 1 3 4) (sample_tensor 1 3 4)
     = Inr (4, 2, 6)
   \<and> AttentionBlock_channels ((AttentionBlock_new 2)\<lparr>AttentionBlock.head_ch := Some 1,
       AttentionBlock.out_ch := Some 0\<rparr>) (sample_tensor 1 3 4) (sample_tensor 1 3 4)
     = Inr (4, 1, 4)
   \<and> AttentionBlock_channels ((AttentionBlock_new 2)\<lparr>AttentionBlock.head_ch := Some 1,
       AttentionBlock.out_ch := None\<rparr>) (sample_tensor 1 3 4) (sample_tensor 1 3 4)
     = Inr (4, 1, 4)"
  using falsy_head_ch_out_ch [of "(AttentionBlock_new 2)\<lparr>AttentionBlock.out_ch := Some 6\<rparr>"
          "sample_tensor 1 3 4" "sample_tensor 1 3 4"]
        falsy_head_ch_out_ch [of "(AttentionBlock_new 2)\<lparr>AttentionBlock.head_ch := Some 1\<rparr>"
          "sample_tensor 1 3 4" "sample_tensor 1 3 4"]
  by (simp add: ndim_def AttentionBlock_new_def)

end
